theory Spec2Isabelle
  imports Main "HOL-Library.Word"
begin

unbundle bit_operations_syntax

section \<open>Binary Web Token (karalef/bwt): a shallow embedding\<close>

text \<open>
  The Go package is embedded function by function. Bytes are 8-bit words, Go strings are
  byte strings (\<open>string\<close>), a nil slice and an empty slice are both the empty list (the
  code only ever takes their length). A panic is a value of type \<open>panic\<close>, returned on
  the left of a sum; a Go \<open>error\<close> result is an \<open>error option\<close> with \<open>None\<close> for nil.
\<close>

type_synonym byte = "8 word"

subsection \<open>Errors and panics\<close>

text \<open>
  The sentinel errors of the package are constructors. \<open>ErrorsNew s\<close> is the value of a
  call \<open>errors.New(s)\<close> made while the code runs, \<open>External s\<close> an error produced by a
  library or by a callback of the caller, \<open>Joined es\<close> the value of \<open>errors.Join\<close>.
\<close>

datatype error =
    ErrTokenMalformed
  | ErrTokenUnverifiable
  | ErrTokenTagInvalid
  | ErrTokenInvalidClaims
  | ErrInvalidKeyType
  | ErrInvalidKey
  | ErrTagInvalid
  | ErrWrongTag
  | ErrHashUnavailable
  | ErrTokenRequiredClaimMissing
  | ErrTokenInvalidAudience
  | ErrTokenExpired
  | ErrTokenUsedBeforeIssued
  | ErrTokenInvalidIssuer
  | ErrTokenInvalidSubject
  | ErrTokenNotValidYet
  | ErrorsNew string
  | External string
  | Joined "error list"

datatype panic =
    PanicInterfaceConversion
  | PanicNilDereference
  | PanicBadKeyLength
  | PanicHashUnavailable

text \<open>\<open>errors.Join\<close>: nil arguments are dropped; nil when nothing is left.\<close>

definition errors_Join :: "error option list \<Rightarrow> error option" where
  "errors_Join errs =
     (let es = List.map_filter (\<lambda>e. e) errs
      in if es = [] then None else Some (Joined es))"

text \<open>
  \<open>errors.Is\<close> for a sentinel target: the error is the target, or it is a join and one
  of its members is the target.
\<close>

fun errors_Is :: "error \<Rightarrow> error \<Rightarrow> bool" where
  "errors_Is (Joined es) target = (Joined es = target \<or> (\<exists>e \<in> set es. errors_Is e target))"
| "errors_Is e target = (e = target)"

subsection \<open>Time\<close>

text \<open>
  A \<open>time.Time\<close> is the instant it denotes, counted in nanoseconds from the zero Time
  (January 1, year 1, 00:00 UTC), so \<open>IsZero\<close> is equality with 0, \<open>Before\<close> is \<open><\<close> and
  \<open>Add\<close> is addition of a \<open>time.Duration\<close> (nanoseconds). Instants are not bounded here.
\<close>

type_synonym Time = int
type_synonym Duration = int

definition IsZero :: "Time \<Rightarrow> bool" where
  "IsZero t = (t = 0)"

definition Before :: "Time \<Rightarrow> Time \<Rightarrow> bool" where
  "Before t u = (t < u)"

definition Add :: "Time \<Rightarrow> Duration \<Rightarrow> Time" where
  "Add t d = t + d"

subsection \<open>claims.go\<close>

text \<open>
  A value of the empty interface \<open>any\<close>, as stored in a \<open>ClaimsMap\<close>, carries its
  dynamic type.
\<close>

datatype any =
    ANil
  | AString string
  | ATime Time
  | AStrings "string list"
  | ABool bool
  | AInt int
  | ABytes "byte list"
  | AList "any list"

datatype dyntype = TNil | TString | TTime | TStrings | TBool | TInt | TBytes | TList

fun dynamic_type :: "any \<Rightarrow> dyntype" where
  "dynamic_type ANil = TNil"
| "dynamic_type (AString _) = TString"
| "dynamic_type (ATime _) = TTime"
| "dynamic_type (AStrings _) = TStrings"
| "dynamic_type (ABool _) = TBool"
| "dynamic_type (AInt _) = TInt"
| "dynamic_type (ABytes _) = TBytes"
| "dynamic_type (AList _) = TList"

text \<open>The type assertions \<open>v.(string)\<close>, \<open>v.(time.Time)\<close> and \<open>v.([]string)\<close>.\<close>

fun as_string :: "any \<Rightarrow> string option" where
  "as_string (AString s) = Some s"
| "as_string _ = None"

fun as_time :: "any \<Rightarrow> Time option" where
  "as_time (ATime t) = Some t"
| "as_time _ = None"

fun as_strings :: "any \<Rightarrow> string list option" where
  "as_strings (AStrings ss) = Some ss"
| "as_strings _ = None"

definition ClaimsKeyKeyID :: string where "ClaimsKeyKeyID = ''kid''"
definition ClaimsKeyExpirationTime :: string where "ClaimsKeyExpirationTime = ''exp''"
definition ClaimsKeyIssuedAt :: string where "ClaimsKeyIssuedAt = ''iat''"
definition ClaimsKeyNotBefore :: string where "ClaimsKeyNotBefore = ''nbf''"
definition ClaimsKeyIssuer :: string where "ClaimsKeyIssuer = ''iss''"
definition ClaimsKeySubject :: string where "ClaimsKeySubject = ''sub''"
definition ClaimsKeyAudience :: string where "ClaimsKeyAudience = ''aud''"

record RegisteredClaims =
  KeyID :: string
  ExpirationTime :: Time
  IssuedAt :: Time
  NotBefore :: Time
  Issuer :: string
  Subject :: string
  Audience :: "string list"

type_synonym ClaimsMap = "string \<rightharpoonup> any"

text \<open>
  \<open>MapValue[V]\<close>: the zero value of \<open>V\<close> when the key is absent, otherwise the
  single-value type assertion \<open>v.(V)\<close>, which panics when the stored value is not a \<open>V\<close>.
  The type parameter is passed as its assertion and its zero value.
\<close>

definition MapValue :: "(any \<Rightarrow> 'v option) \<Rightarrow> 'v \<Rightarrow> ClaimsMap \<Rightarrow> string \<Rightarrow> panic + 'v" where
  "MapValue assert_V zero_V m key =
     (case m key of
        None \<Rightarrow> Inr zero_V
      | Some v \<Rightarrow>
          (case assert_V v of
             None \<Rightarrow> Inl PanicInterfaceConversion
           | Some x \<Rightarrow> Inr x))"

definition Time_of :: "ClaimsMap \<Rightarrow> string \<Rightarrow> panic + Time" where
  "Time_of c key = MapValue as_time 0 c key"

definition Str :: "ClaimsMap \<Rightarrow> string \<Rightarrow> panic + string" where
  "Str c key = MapValue as_string [] c key"

definition Strs :: "ClaimsMap \<Rightarrow> string \<Rightarrow> panic + string list" where
  "Strs c key = MapValue as_strings [] c key"

text \<open>
  The \<open>Claims\<close> interface is open. Its values here are the two types of the package and
  a type of the caller that embeds \<open>RegisteredClaims\<close> and implements \<open>ClaimsValidator\<close>,
  its \<open>Validate()\<close> returning the given error.
\<close>

datatype Claims =
    RegisteredC RegisteredClaims
  | ClaimsMapC ClaimsMap
  | ValidatingC RegisteredClaims "error option"

fun GetKeyID :: "Claims \<Rightarrow> panic + string" where
  "GetKeyID (RegisteredC c) = Inr (KeyID c)"
| "GetKeyID (ClaimsMapC c) = Str c ClaimsKeyKeyID"
| "GetKeyID (ValidatingC c _) = Inr (KeyID c)"

fun GetExpirationTime :: "Claims \<Rightarrow> panic + Time" where
  "GetExpirationTime (RegisteredC c) = Inr (ExpirationTime c)"
| "GetExpirationTime (ClaimsMapC c) = Time_of c ClaimsKeyExpirationTime"
| "GetExpirationTime (ValidatingC c _) = Inr (ExpirationTime c)"

fun GetIssuedAt :: "Claims \<Rightarrow> panic + Time" where
  "GetIssuedAt (RegisteredC c) = Inr (IssuedAt c)"
| "GetIssuedAt (ClaimsMapC c) = Time_of c ClaimsKeyIssuedAt"
| "GetIssuedAt (ValidatingC c _) = Inr (IssuedAt c)"

fun GetNotBefore :: "Claims \<Rightarrow> panic + Time" where
  "GetNotBefore (RegisteredC c) = Inr (NotBefore c)"
| "GetNotBefore (ClaimsMapC c) = Time_of c ClaimsKeyNotBefore"
| "GetNotBefore (ValidatingC c _) = Inr (NotBefore c)"

fun GetIssuer :: "Claims \<Rightarrow> panic + string" where
  "GetIssuer (RegisteredC c) = Inr (Issuer c)"
| "GetIssuer (ClaimsMapC c) = Str c ClaimsKeyIssuer"
| "GetIssuer (ValidatingC c _) = Inr (Issuer c)"

fun GetSubject :: "Claims \<Rightarrow> panic + string" where
  "GetSubject (RegisteredC c) = Inr (Subject c)"
| "GetSubject (ClaimsMapC c) = Str c ClaimsKeySubject"
| "GetSubject (ValidatingC c _) = Inr (Subject c)"

fun GetAudience :: "Claims \<Rightarrow> panic + string list" where
  "GetAudience (RegisteredC c) = Inr (Audience c)"
| "GetAudience (ClaimsMapC c) = Strs c ClaimsKeyAudience"
| "GetAudience (ValidatingC c _) = Inr (Audience c)"

text \<open>The \<open>ClaimsValidator\<close> capability: the result of \<open>Validate()\<close> where the type has it.\<close>

fun self_validate :: "Claims \<Rightarrow> error option option" where
  "self_validate (ValidatingC _ r) = Some r"
| "self_validate _ = None"

subsection \<open>crypto/subtle\<close>

text \<open>
  The two library functions behind the comparisons of the package, as the standard
  library writes them: \<open>int((uint32(x^y) - 1) >> 31)\<close>, and the OR of the XORs of the
  bytes after a length check. A Go string converts to its bytes.
\<close>

definition bytes_of :: "string \<Rightarrow> byte list" where
  "bytes_of s = map of_char s"

definition ConstantTimeByteEq :: "byte \<Rightarrow> byte \<Rightarrow> int" where
  "ConstantTimeByteEq x y = uint (drop_bit 31 ((ucast (x XOR y) :: 32 word) - 1))"

definition ConstantTimeCompare :: "byte list \<Rightarrow> byte list \<Rightarrow> int" where
  "ConstantTimeCompare x y =
     (if length x \<noteq> length y then 0
      else ConstantTimeByteEq (fold (\<lambda>(a, b) v. v OR (a XOR b)) (zip x y) 0) 0)"

subsection \<open>validator.go\<close>

text \<open>
  The fields of a \<open>Validator\<close> that its rules can reach are kept in \<open>VClock\<close>: the
  leeway, the time function and the cached \<open>now\<close>. A time function is not pure, so it
  is the sequence of its readings, and \<open>reads\<close> counts the readings taken so far;
  \<open>time_Now\<close> holds the readings of \<open>time.Now\<close>, which \<open>Now\<close> installs when no
  time function is configured. \<open>reads\<close> and \<open>time_Now\<close> are not fields of the Go struct.
\<close>

record VClock =
  leeway :: Duration
  timeFunc :: "(nat \<Rightarrow> Time) option"
  now :: Time
  reads :: nat
  time_Now :: "nat \<Rightarrow> Time"

type_synonym ValidatorFunc = "VClock \<Rightarrow> Claims \<Rightarrow> panic + (error option \<times> VClock)"

record Validator =
  clock :: VClock
  validators :: "ValidatorFunc list"

type_synonym ValidatorOption = "Validator \<Rightarrow> Validator"

definition Now :: "VClock \<Rightarrow> Time \<times> VClock" where
  "Now v =
     (if \<not> IsZero (now v) then (now v, v)
      else
        let f = (case timeFunc v of None \<Rightarrow> time_Now v | Some g \<Rightarrow> g);
            t = f (reads v)
        in (t, v\<lparr>timeFunc := Some f, now := t, reads := reads v + 1\<rparr>))"

definition PTime :: "VClock \<Rightarrow> Time \<times> VClock" where
  "PTime v = (case Now v of (t, v') \<Rightarrow> (Add t (- leeway v'), v'))"

definition FTime :: "VClock \<Rightarrow> Time \<times> VClock" where
  "FTime v = (case Now v of (t, v') \<Rightarrow> (Add t (leeway v'), v'))"

definition zero_Validator :: "(nat \<Rightarrow> Time) \<Rightarrow> Validator" where
  "zero_Validator sysclock =
     \<lparr>clock = \<lparr>leeway = 0, timeFunc = None, now = 0, reads = 0, time_Now = sysclock\<rparr>,
      validators = []\<rparr>"

definition NewValidator :: "(nat \<Rightarrow> Time) \<Rightarrow> ValidatorOption list \<Rightarrow> Validator" where
  "NewValidator sysclock opts = fold (\<lambda>apply v. apply v) opts (zero_Validator sysclock)"

definition WithLeeway :: "Duration \<Rightarrow> ValidatorOption" where
  "WithLeeway l = (\<lambda>v. v\<lparr>clock := (clock v)\<lparr>leeway := l\<rparr>\<rparr>)"

definition WithTimeFunc :: "(nat \<Rightarrow> Time) option \<Rightarrow> ValidatorOption" where
  "WithTimeFunc f = (\<lambda>v. v\<lparr>clock := (clock v)\<lparr>timeFunc := f\<rparr>\<rparr>)"

definition WithValidator :: "ValidatorFunc \<Rightarrow> ValidatorOption" where
  "WithValidator f = (\<lambda>v. v\<lparr>validators := validators v @ [f]\<rparr>)"

definition errorIfFalse :: "bool \<Rightarrow> error \<Rightarrow> error option" where
  "errorIfFalse value err = (if value then None else Some err)"

definition errorIfRequired :: "bool \<Rightarrow> string \<Rightarrow> error option" where
  "errorIfRequired required claim =
     (if required
      then errors_Join [Some (ErrorsNew (claim @ '' claim is required'')),
                        Some ErrTokenRequiredClaimMissing]
      else None)"

text \<open>The loop of \<open>Validate\<close>: every rule is called, its error appended when not nil.\<close>

fun run_validators ::
  "ValidatorFunc list \<Rightarrow> VClock \<Rightarrow> Claims \<Rightarrow> error list \<Rightarrow> panic + (error list \<times> VClock)" where
  "run_validators [] v claims errs = Inr (errs, v)"
| "run_validators (validate # rest) v claims errs =
     (case validate v claims of
        Inl p \<Rightarrow> Inl p
      | Inr (None, v') \<Rightarrow> run_validators rest v' claims errs
      | Inr (Some err, v') \<Rightarrow> run_validators rest v' claims (errs @ [err]))"

definition Validate :: "Validator \<Rightarrow> Claims \<Rightarrow> panic + (error option \<times> Validator)" where
  "Validate v claims =
     (case run_validators (validators v) (clock v) claims [] of
        Inl p \<Rightarrow> Inl p
      | Inr (errs, c') \<Rightarrow>
          let errs' = (case self_validate claims of
                         Some (Some err) \<Rightarrow> errs @ [err]
                       | _ \<Rightarrow> errs)
          in Inr (errors_Join (map Some errs'), v\<lparr>clock := c'\<rparr>))"

text \<open>The rules of the package, each the function that its option hands to \<open>WithValidator\<close>.\<close>

definition VerifyExpiration :: "bool \<Rightarrow> ValidatorFunc" where
  "VerifyExpiration required v claims =
     (case GetExpirationTime claims of
        Inl p \<Rightarrow> Inl p
      | Inr exp \<Rightarrow>
          if IsZero exp then Inr (errorIfRequired required ClaimsKeyExpirationTime, v)
          else case PTime v of (pt, v') \<Rightarrow>
            Inr (errorIfFalse (Before pt exp) ErrTokenExpired, v'))"

definition WithVerifyExpiration :: "bool \<Rightarrow> ValidatorOption" where
  "WithVerifyExpiration required = WithValidator (VerifyExpiration required)"

definition VerifyIssuedAt :: "bool \<Rightarrow> ValidatorFunc" where
  "VerifyIssuedAt required v claims =
     (case GetIssuedAt claims of
        Inl p \<Rightarrow> Inl p
      | Inr iat \<Rightarrow>
          if IsZero iat then Inr (errorIfRequired required ClaimsKeyIssuedAt, v)
          else case FTime v of (ft, v') \<Rightarrow>
            Inr (errorIfFalse (\<not> Before ft iat) ErrTokenUsedBeforeIssued, v'))"

definition WithVerifyIssuedAt :: "bool \<Rightarrow> ValidatorOption" where
  "WithVerifyIssuedAt required = WithValidator (VerifyIssuedAt required)"

definition VerifyNotBefore :: "bool \<Rightarrow> ValidatorFunc" where
  "VerifyNotBefore required v claims =
     (case GetNotBefore claims of
        Inl p \<Rightarrow> Inl p
      | Inr nbf \<Rightarrow>
          if IsZero nbf then Inr (errorIfRequired required ClaimsKeyNotBefore, v)
          else case FTime v of (ft, v') \<Rightarrow>
            Inr (errorIfFalse (\<not> Before ft nbf) ErrTokenNotValidYet, v'))"

definition WithVerifyNotBefore :: "bool \<Rightarrow> ValidatorOption" where
  "WithVerifyNotBefore required = WithValidator (VerifyNotBefore required)"

text \<open>
  The loop of the audience rule over \<open>aud\<close>, carrying \<open>result\<close> and \<open>nonEmpty\<close>.
\<close>

fun audience_loop :: "string list \<Rightarrow> string \<Rightarrow> bool \<Rightarrow> bool \<Rightarrow> bool \<times> bool" where
  "audience_loop [] audience result nonEmpty = (result, nonEmpty)"
| "audience_loop (a # aud) audience result nonEmpty =
     audience_loop aud audience
       (if ConstantTimeCompare (bytes_of a) (bytes_of audience) \<noteq> 0 then True else result)
       (nonEmpty \<or> a \<noteq> [])"

definition RequireAudience :: "bool \<Rightarrow> string \<Rightarrow> ValidatorFunc" where
  "RequireAudience required audience v claims =
     (case GetAudience claims of
        Inl p \<Rightarrow> Inl p
      | Inr aud \<Rightarrow>
          if length aud = 0 then Inr (errorIfRequired required ClaimsKeyAudience, v)
          else case audience_loop aud audience False False of (result, nonEmpty) \<Rightarrow>
            if \<not> nonEmpty then Inr (errorIfRequired required ClaimsKeyAudience, v)
            else Inr (errorIfFalse result ErrTokenInvalidAudience, v))"

definition WithRequireAudience :: "bool \<Rightarrow> string \<Rightarrow> ValidatorOption" where
  "WithRequireAudience required audience = WithValidator (RequireAudience required audience)"

definition VerifyIssuer :: "bool \<Rightarrow> string \<Rightarrow> ValidatorFunc" where
  "VerifyIssuer required issuer v claims =
     (case GetIssuer claims of
        Inl p \<Rightarrow> Inl p
      | Inr iss \<Rightarrow>
          if iss = [] then Inr (errorIfRequired required ClaimsKeyIssuer, v)
          else Inr (errorIfFalse (iss = issuer) ErrTokenInvalidIssuer, v))"

definition WithVerifyIssuer :: "bool \<Rightarrow> string \<Rightarrow> ValidatorOption" where
  "WithVerifyIssuer required issuer = WithValidator (VerifyIssuer required issuer)"

definition VerifySubject :: "bool \<Rightarrow> string \<Rightarrow> ValidatorFunc" where
  "VerifySubject required subject v claims =
     (case GetSubject claims of
        Inl p \<Rightarrow> Inl p
      | Inr sub \<Rightarrow>
          if sub = [] then Inr (errorIfRequired required ClaimsKeySubject, v)
          else Inr (errorIfFalse (sub = subject) ErrTokenInvalidSubject, v))"

definition WithVerifySubject :: "bool \<Rightarrow> string \<Rightarrow> ValidatorOption" where
  "WithVerifySubject required subject = WithValidator (VerifySubject required subject)"

subsection \<open>Library functions on strings\<close>

text \<open>
  \<open>strings.Cut\<close> and \<open>strings.Split\<close> for a separator of one byte, which is how the
  package calls them, and \<open>strings.ToUpper\<close> on ASCII letters (other bytes are kept).
\<close>

definition Cut :: "string \<Rightarrow> char \<Rightarrow> string \<times> string \<times> bool" where
  "Cut s sep =
     (if sep \<in> set s
      then (takeWhile (\<lambda>c. c \<noteq> sep) s, tl (dropWhile (\<lambda>c. c \<noteq> sep) s), True)
      else (s, [], False))"

function Split :: "string \<Rightarrow> char \<Rightarrow> string list" where
  "Split s sep =
     (if sep \<in> set s
      then takeWhile (\<lambda>c. c \<noteq> sep) s # Split (tl (dropWhile (\<lambda>c. c \<noteq> sep) s)) sep
      else [s])"
  by pat_completeness auto
termination
proof (relation "measure (\<lambda>(s, sep). length s)")
  show "wf (measure (\<lambda>(s, sep). length s))" by simp
next
  fix s :: string and sep :: char
  assume "sep \<in> set s"
  then have "dropWhile (\<lambda>c. c \<noteq> sep) s \<noteq> []" by simp
  then have "length (tl (dropWhile (\<lambda>c. c \<noteq> sep) s)) < length (dropWhile (\<lambda>c. c \<noteq> sep) s)"
    by (cases "dropWhile (\<lambda>c. c \<noteq> sep) s") simp_all
  also have "\<dots> \<le> length s" by (rule length_dropWhile_le)
  finally show "((tl (dropWhile (\<lambda>c. c \<noteq> sep) s), sep), (s, sep)) \<in> measure (\<lambda>(s, sep). length s)"
    by simp
qed

definition upper_byte :: "char \<Rightarrow> char" where
  "upper_byte c =
     (let n = (of_char c :: nat) in if 97 \<le> n \<and> n \<le> 122 then char_of (n - 32) else c)"

definition ToUpper :: "string \<Rightarrow> string" where
  "ToUpper s = map upper_byte s"

subsection \<open>encoding/base64: RawURLEncoding\<close>

text \<open>
  The URL alphabet of RFC 4648 without padding, as the standard library encodes and
  decodes it: three bytes make four characters, a rest of one or two bytes makes two or
  three; the decoder skips CR and LF, refuses any other byte outside the alphabet and a
  last group of one character, ignores the unused low bits of a last group, and returns
  the bytes of the groups decoded before an error together with the error.
\<close>

definition encodeURL :: string where
  "encodeURL = ''ABCDEFGHIJKLMNOPQRSTUVWXYZabcdefghijklmnopqrstuvwxyz0123456789-_''"

fun index_from :: "char \<Rightarrow> string \<Rightarrow> nat \<Rightarrow> nat option" where
  "index_from c [] k = None"
| "index_from c (x # xs) k = (if x = c then Some k else index_from c xs (Suc k))"

definition decodeMap :: "char \<Rightarrow> nat option" where
  "decodeMap c = index_from c encodeURL 0"


definition CorruptInputError :: error where
  "CorruptInputError = External ''illegal base64 data''"

fun decodeQuanta :: "string \<Rightarrow> byte list \<times> error option" where
  "decodeQuanta (c0 # c1 # c2 # c3 # src) =
     (case (decodeMap c0, decodeMap c1, decodeMap c2, decodeMap c3) of
        (Some d0, Some d1, Some d2, Some d3) \<Rightarrow>
          (let val = d0 * 262144 + d1 * 4096 + d2 * 64 + d3
           in case decodeQuanta src of (dst, err) \<Rightarrow>
                (of_nat (val div 65536) # of_nat (val div 256) # of_nat val # dst, err))
      | _ \<Rightarrow> ([], Some CorruptInputError))"
| "decodeQuanta [c0, c1, c2] =
     (case (decodeMap c0, decodeMap c1, decodeMap c2) of
        (Some d0, Some d1, Some d2) \<Rightarrow>
          (let val = d0 * 262144 + d1 * 4096 + d2 * 64
           in ([of_nat (val div 65536), of_nat (val div 256)], None))
      | _ \<Rightarrow> ([], Some CorruptInputError))"
| "decodeQuanta [c0, c1] =
     (case (decodeMap c0, decodeMap c1) of
        (Some d0, Some d1) \<Rightarrow>
          (let val = d0 * 262144 + d1 * 4096
           in ([of_nat (val div 65536)], None))
      | _ \<Rightarrow> ([], Some CorruptInputError))"
| "decodeQuanta [c0] = ([], Some CorruptInputError)"
| "decodeQuanta [] = ([], None)"

definition DecodeString :: "string \<Rightarrow> byte list \<times> error option" where
  "DecodeString s = decodeQuanta (filter (\<lambda>c. c \<noteq> CHR 0x0A \<and> c \<noteq> CHR 0x0D) s)"

subsection \<open>External collaborators\<close>

text \<open>
  The msgpack codec and the cryptographic primitives are not part of the package; the
  functions that call them take them as a record. \<open>unmarshal\<close> gets the bytes and the
  claims container and returns the container as filled in. \<open>hmac_sum h key msg\<close> is the
  MAC of all the bytes written to an HMAC over hash \<open>h\<close> with that key;
  \<open>ed25519_sign\<close> and \<open>ed25519_verify\<close> are the pure scheme on keys of the right
  length.
\<close>

datatype Hash = SHA3_256 | SHA3_384 | SHA3_512 | UnlinkedHash nat

record Ext =
  marshal :: "Claims option \<Rightarrow> error + byte list"
  unmarshal :: "byte list \<Rightarrow> Claims \<Rightarrow> error + Claims"
  hmac_sum :: "Hash \<Rightarrow> byte list \<Rightarrow> byte list \<Rightarrow> byte list"
  ed25519_sign :: "byte list \<Rightarrow> byte list \<Rightarrow> byte list"
  ed25519_verify :: "byte list \<Rightarrow> byte list \<Rightarrow> byte list \<Rightarrow> bool"

text \<open>
  \<open>crypto.Hash\<close>: the three SHA-3 hashes are linked in by the import in hmac.go;
  \<open>UnlinkedHash n\<close> is a hash of digest size \<open>n\<close> that the program does not link.
  \<open>hmac.New(h.New, key)\<close> panics on such a hash.
\<close>

fun Available :: "Hash \<Rightarrow> bool" where
  "Available (UnlinkedHash _) = False"
| "Available _ = True"

fun Size :: "Hash \<Rightarrow> nat" where
  "Size SHA3_256 = 32"
| "Size SHA3_384 = 48"
| "Size SHA3_512 = 64"
| "Size (UnlinkedHash n) = n"

definition hmac_Sum :: "Ext \<Rightarrow> Hash \<Rightarrow> byte list \<Rightarrow> byte list \<Rightarrow> panic + byte list" where
  "hmac_Sum ext h key msg =
     (if \<not> Available h then Inl PanicHashUnavailable else Inr (hmac_sum ext h key msg))"

definition hmac_Equal :: "byte list \<Rightarrow> byte list \<Rightarrow> bool" where
  "hmac_Equal mac1 mac2 = (ConstantTimeCompare mac1 mac2 = 1)"

text \<open>
  \<open>crypto/ed25519\<close>: \<open>Verify\<close> and \<open>Sign\<close> panic on a key of the wrong length;
  \<open>Verify\<close> is false on a signature of the wrong length.
\<close>

definition PublicKeySize :: nat where "PublicKeySize = 32"
definition SignatureSize :: nat where "SignatureSize = 64"

definition ed25519_Verify :: "Ext \<Rightarrow> byte list \<Rightarrow> byte list \<Rightarrow> byte list \<Rightarrow> panic + bool" where
  "ed25519_Verify ext publicKey message sig =
     (if length publicKey \<noteq> PublicKeySize then Inl PanicBadKeyLength
      else Inr (length sig = SignatureSize \<and> ed25519_verify ext publicKey message sig))"


subsection \<open>Algorithms, keys and the registry\<close>

text \<open>
  A key is an interface value; the constructors are its dynamic types: \<open>[]byte\<close>,
  \<open>ed25519.PublicKey\<close>, \<open>ed25519.PrivateKey\<close>, nil, and any other type.
\<close>

datatype Key =
    KeyBytes "byte list"
  | KeyEd25519Public "byte list"
  | KeyEd25519Private "byte list"
  | KeyNil
  | KeyOther string

fun as_bytes :: "Key \<Rightarrow> byte list option" where
  "as_bytes (KeyBytes b) = Some b"
| "as_bytes _ = None"

fun as_ed25519_PublicKey :: "Key \<Rightarrow> byte list option" where
  "as_ed25519_PublicKey (KeyEd25519Public b) = Some b"
| "as_ed25519_PublicKey _ = None"


text \<open>\<open>KeyAs[T]\<close>, the type parameter passed as its assertion and its zero value.\<close>

definition KeyAs :: "(Key \<Rightarrow> 'a option) \<Rightarrow> 'a \<Rightarrow> Key \<Rightarrow> 'a \<times> error option" where
  "KeyAs assert_T zero_T key =
     (case assert_T key of
        None \<Rightarrow> (zero_T, Some ErrInvalidKeyType)
      | Some v \<Rightarrow> (v, None))"

text \<open>The two implementations of the \<open>Algorithm\<close> interface in the package.\<close>

datatype Algorithm = hmacAlgo string Hash | algoEd25519

fun Name :: "Algorithm \<Rightarrow> string" where
  "Name (hmacAlgo alg h) = alg"
| "Name algoEd25519 = ''EDDSA''"

definition HS256 :: Algorithm where "HS256 = hmacAlgo ''HS256'' SHA3_256"
definition HS384 :: Algorithm where "HS384 = hmacAlgo ''HS384'' SHA3_384"
definition HS512 :: Algorithm where "HS512 = hmacAlgo ''HS512'' SHA3_512"
definition EdDSA :: Algorithm where "EdDSA = algoEd25519"

fun Verify ::
  "Ext \<Rightarrow> Algorithm \<Rightarrow> string \<Rightarrow> byte list \<Rightarrow> Key \<Rightarrow> byte list \<Rightarrow> panic + error option" where
  "Verify ext (hmacAlgo alg h) prefix body key tag =
     (if \<not> Available h then Inr (Some ErrHashUnavailable)
      else (case KeyAs as_bytes [] key of
        (keyBytes, Some err) \<Rightarrow> Inr (Some err)
      | (keyBytes, None) \<Rightarrow>
          (if length tag \<noteq> Size h then Inr (Some ErrTagInvalid)
           else (case hmac_Sum ext h keyBytes (bytes_of prefix @ body) of
             Inl p \<Rightarrow> Inl p
           | Inr mac \<Rightarrow>
               (if \<not> hmac_Equal tag mac then Inr (Some ErrWrongTag) else Inr None)))))"
| "Verify ext algoEd25519 prefix body key tag =
     (case KeyAs as_ed25519_PublicKey [] key of
        (ed25519Key, Some err) \<Rightarrow> Inr (Some err)
      | (ed25519Key, None) \<Rightarrow>
          (if length ed25519Key \<noteq> PublicKeySize then Inr (Some ErrInvalidKey)
           else if length tag \<noteq> SignatureSize then Inr (Some ErrTagInvalid)
           else (case ed25519_Verify ext ed25519Key (bytes_of prefix @ body) tag of
             Inl p \<Rightarrow> Inl p
           | Inr ok \<Rightarrow> (if \<not> ok then Inr (Some ErrWrongTag) else Inr None))))"


text \<open>The registry is the package-level map; the functions take it and return it.\<close>

type_synonym Registry = "string \<rightharpoonup> Algorithm"

definition RegisterAlgorithm :: "Algorithm \<Rightarrow> Registry \<Rightarrow> Registry" where
  "RegisterAlgorithm alg registeredAlgs = registeredAlgs(ToUpper (Name alg) \<mapsto> alg)"

definition GetAlgorithm :: "Registry \<Rightarrow> string \<Rightarrow> Algorithm option" where
  "GetAlgorithm registeredAlgs alg = registeredAlgs (ToUpper alg)"

text \<open>The registry after the \<open>init\<close> functions of eddsa.go and hmac.go have run.\<close>

definition init_registry :: Registry where
  "init_registry =
     RegisterAlgorithm HS512 (RegisterAlgorithm HS384 (RegisterAlgorithm HS256
       (RegisterAlgorithm EdDSA Map.empty)))"

subsection \<open>The token\<close>

definition Type :: string where "Type = ''BWT''"

record Token =
  Algorithm :: "Algorithm option"
  Claims :: "Claims option"
  Tag :: "byte list"



definition Decode :: "string \<Rightarrow> byte list \<times> error option" where
  "Decode s = DecodeString s"

text \<open>\<open>Prefix\<close> calls \<open>Name\<close> on the algorithm, which panics on a nil interface.\<close>

definition Prefix :: "Token \<Rightarrow> panic + string" where
  "Prefix t =
     (case Algorithm t of
        None \<Rightarrow> Inl PanicNilDereference
      | Some alg \<Rightarrow> Inr (Type @ ''_'' @ Name alg))"



subsection \<open>parser.go\<close>

record Parser =
  validator :: "Validator option"

definition NewParser :: "(nat \<Rightarrow> Time) \<Rightarrow> Validator option list \<Rightarrow> Parser" where
  "NewParser sysclock v =
     (if length v > 0 then \<lparr>validator = hd v\<rparr>
      else \<lparr>validator = Some (NewValidator sysclock [])\<rparr>)"

type_synonym Keyfunc = "Token \<Rightarrow> Key \<times> error option"


record Raw =
  Parts :: "string list"
  RawClaims :: "byte list"

definition ParseUnverified ::
  "Ext \<Rightarrow> Registry \<Rightarrow> string \<Rightarrow> Claims \<Rightarrow> Token option \<times> Raw \<times> error option" where
  "ParseUnverified ext registeredAlgs tokenString claims =
     (let raw = \<lparr>Parts = Split tokenString CHR ''.'', RawClaims = []\<rparr>
      in if length (Parts raw) \<noteq> 3 then (None, raw, Some ErrTokenMalformed)
      else
        (let token = \<lparr>Algorithm = None, Claims = None, Tag = []\<rparr>
         in (case Cut (Parts raw ! 0) CHR ''_'' of (typ, alg, ok) \<Rightarrow>
           (if \<not> ok \<or> typ \<noteq> Type \<or> alg = [] then (None, raw, Some ErrTokenMalformed)
            else
              (let token = token\<lparr>Algorithm := GetAlgorithm registeredAlgs alg\<rparr>
               in if Algorithm token = None then (Some token, raw, Some ErrTokenUnverifiable)
               else (case Decode (Parts raw ! 1) of (rawClaims, derr) \<Rightarrow>
                 (let raw = raw\<lparr>RawClaims := rawClaims\<rparr>
                  in (case derr of
                    Some err \<Rightarrow>
                      (Some token, raw, errors_Join [Some ErrTokenMalformed, Some err])
                  | None \<Rightarrow>
                      (case unmarshal ext (RawClaims raw) claims of
                         Inl err \<Rightarrow>
                           (Some token, raw, errors_Join [Some ErrTokenMalformed, Some err])
                       | Inr claims' \<Rightarrow>
                           (Some (token\<lparr>Claims := Some claims'\<rparr>), raw, None))))))))))"

text \<open>
  The last step of \<open>ParseWithClaims\<close>: the validator, when the parser has one. A token
  gets here with its claims set.
\<close>

definition validate_step ::
  "Parser \<Rightarrow> Token \<Rightarrow> panic + (Token option \<times> error option \<times> Parser)" where
  "validate_step p token =
     (case validator p of
        None \<Rightarrow> Inr (Some token, None, p)
      | Some v \<Rightarrow>
          (case Claims token of
             None \<Rightarrow> Inl PanicNilDereference
           | Some c \<Rightarrow>
               (case Validate v c of
                  Inl pn \<Rightarrow> Inl pn
                | Inr (Some err, v') \<Rightarrow>
                    Inr (Some token, errors_Join [Some ErrTokenInvalidClaims, Some err],
                         p\<lparr>validator := Some v'\<rparr>)
                | Inr (None, v') \<Rightarrow> Inr (Some token, None, p\<lparr>validator := Some v'\<rparr>))))"

text \<open>
  \<open>ParseWithClaims\<close> returns the token and the error; the validator of the parser is
  reached through a pointer, so the parser as it is left is returned too.
\<close>

definition ParseWithClaims ::
  "Ext \<Rightarrow> Registry \<Rightarrow> Parser \<Rightarrow> string \<Rightarrow> Claims \<Rightarrow> Keyfunc option \<Rightarrow>
   panic + (Token option \<times> error option \<times> Parser)" where
  "ParseWithClaims ext registeredAlgs p tokenString claims keyFunc =
     (case ParseUnverified ext registeredAlgs tokenString claims of
        (token, raw, Some err) \<Rightarrow> Inr (token, Some err, p)
      | (None, raw, None) \<Rightarrow> Inl PanicNilDereference
      | (Some token0, raw, None) \<Rightarrow>
          (case Decode (Parts raw ! 2) of (tag, derr) \<Rightarrow>
             (let token = token0\<lparr>Tag := tag\<rparr>
              in (case derr of
                Some err \<Rightarrow>
                  Inr (Some token, errors_Join [Some ErrTokenMalformed, Some err], p)
              | None \<Rightarrow>
                  (case keyFunc of
                     None \<Rightarrow>
                       Inr (Some token,
                            errors_Join [Some (ErrorsNew ''no keyfunc was provided''),
                                         Some ErrTokenUnverifiable], p)
                   | Some kf \<Rightarrow>
                       (case kf token of
                          (key, Some err) \<Rightarrow>
                            Inr (Some token,
                                 errors_Join [Some ErrTokenUnverifiable, Some err], p)
                        | (key, None) \<Rightarrow>
                            (case Algorithm token of
                               None \<Rightarrow> Inl PanicNilDereference
                             | Some alg \<Rightarrow>
                                 (case Prefix token of
                                    Inl pn \<Rightarrow> Inl pn
                                  | Inr prefix \<Rightarrow>
                                      (case Verify ext alg prefix (RawClaims raw) key (Tag token) of
                                         Inl pn \<Rightarrow> Inl pn
                                       | Inr (Some err) \<Rightarrow>
                                           Inr (Some token,
                                                errors_Join [Some ErrTokenTagInvalid, Some err], p)
                                       | Inr None \<Rightarrow> validate_step p token)))))))))"

definition Parse ::
  "Ext \<Rightarrow> Registry \<Rightarrow> Parser \<Rightarrow> string \<Rightarrow> Keyfunc option \<Rightarrow>
   panic + (Token option \<times> error option \<times> Parser)" where
  "Parse ext registeredAlgs p tokenString keyFunc =
     ParseWithClaims ext registeredAlgs p tokenString (ClaimsMapC Map.empty) keyFunc"

subsection \<open>Notions used in the statements\<close>

text \<open>
  A key is absent from a claims map, or present with a value whose dynamic type is not
  the given one. \<open>mistyped_claims\<close> holds every well-known key with a value of a
  wrong type.
\<close>

definition absent :: "ClaimsMap \<Rightarrow> string \<Rightarrow> bool" where
  "absent m key = (m key = None)"

definition mistyped :: "ClaimsMap \<Rightarrow> string \<Rightarrow> dyntype \<Rightarrow> bool" where
  "mistyped m key T = (case m key of None \<Rightarrow> False | Some v \<Rightarrow> dynamic_type v \<noteq> T)"

definition mistyped_claims :: ClaimsMap where
  "mistyped_claims =
     [ClaimsKeyKeyID \<mapsto> AInt 7, ClaimsKeyExpirationTime \<mapsto> AString ''tomorrow'',
      ClaimsKeyIssuedAt \<mapsto> AInt 1516239022, ClaimsKeyNotBefore \<mapsto> ANil,
      ClaimsKeyIssuer \<mapsto> ABool True, ClaimsKeySubject \<mapsto> ABytes [1, 2],
      ClaimsKeyAudience \<mapsto> AList [AString ''a'', AString ''b'']]"

text \<open>Claims, clocks and validators at which the theorems are evaluated.\<close>

definition claims_ab :: Claims where
  "claims_ab = RegisteredC \<lparr>KeyID = [], ExpirationTime = 1000, IssuedAt = 0, NotBefore = 0,
     Issuer = ''issuer'', Subject = [], Audience = [''a'', ''b'']\<rparr>"

definition clock_at :: "Time \<Rightarrow> Duration \<Rightarrow> VClock" where
  "clock_at t l = \<lparr>leeway = l, timeFunc = Some (\<lambda>n. t), now = 0, reads = 0, time_Now = (\<lambda>n. t)\<rparr>"


text \<open>
  For C6, the spec's reading of \<open>Validate\<close>: \<open>all_rule_outcomes\<close> runs every rule in
  order, each on the validator as the rule before left it, and records the outcome of
  each whether it is an error or nil; nothing but a panic stops it. \<open>self_check\<close> is the
  result of the claims' own \<open>Validate()\<close>, nil for claims without one, and \<open>failures\<close>
  keeps the errors of a list of outcomes, in order.
\<close>

fun all_rule_outcomes ::
  "ValidatorFunc list \<Rightarrow> VClock \<Rightarrow> Claims \<Rightarrow> panic + (error option list \<times> VClock)" where
  "all_rule_outcomes [] v claims = Inr ([], v)"
| "all_rule_outcomes (rule # rules) v claims =
     (case rule v claims of
        Inl p \<Rightarrow> Inl p
      | Inr (outcome, v') \<Rightarrow>
          (case all_rule_outcomes rules v' claims of
             Inl p \<Rightarrow> Inl p
           | Inr (outcomes, v'') \<Rightarrow> Inr (outcome # outcomes, v'')))"

definition self_check :: "Claims \<Rightarrow> error option" where
  "self_check claims = (case self_validate claims of Some r \<Rightarrow> r | None \<Rightarrow> None)"

definition failures :: "error option list \<Rightarrow> error list" where
  "failures outcomes = List.map_filter (\<lambda>e. e) outcomes"

definition two_rules :: Validator where
  "two_rules = \<lparr>clock = clock_at 100 0,
                 validators = [VerifyExpiration True, VerifyIssuer True ''me'']\<rparr>"

definition failing_claims :: Claims where
  "failing_claims =
     ValidatingC \<lparr>KeyID = [], ExpirationTime = 50, IssuedAt = 0, NotBefore = 0,
                  Issuer = ''issuer'', Subject = [], Audience = []\<rparr>
                 (Some (External ''custom check failed''))"




text \<open>
  Stand-ins for the external collaborators, at which the theorems are evaluated. The
  codec is the fragment of msgpack for claims that hold at most an issuer of fewer than
  32 bytes (the map \<open>{"iss": issuer}\<close>, or the empty map). The MAC and the signature are
  checksums of the right length; the public half of a private signing key is its last 32
  bytes, as in \<open>crypto/ed25519\<close>.
\<close>

definition iss_only :: "RegisteredClaims \<Rightarrow> bool" where
  "iss_only c \<longleftrightarrow>
     KeyID c = [] \<and> ExpirationTime c = 0 \<and> IssuedAt c = 0 \<and> NotBefore c = 0 \<and>
     Subject c = [] \<and> Audience c = [] \<and> length (Issuer c) < 32"

definition encode_iss :: "string \<Rightarrow> byte list" where
  "encode_iss iss =
     (if iss = [] then [0x80]
      else [0x81, 0xA3] @ bytes_of ''iss'' @ [of_nat (160 + length iss)] @ bytes_of iss)"

fun test_marshal :: "Claims option \<Rightarrow> error + byte list" where
  "test_marshal (Some (RegisteredC c)) =
     (if iss_only c then Inr (encode_iss (Issuer c))
      else Inl (External ''claims outside the fragment''))"
| "test_marshal _ = Inl (External ''claims outside the fragment'')"

definition decode_iss :: "byte list \<Rightarrow> string option" where
  "decode_iss b =
     (if b = [0x80] then Some []
      else if take 5 b = [0x81, 0xA3] @ bytes_of ''iss'' \<and> 6 \<le> length b \<and>
              160 < unat (b ! 5) \<and> unat (b ! 5) < 192 \<and>
              length b = 6 + (unat (b ! 5) - 160)
      then Some (map (\<lambda>x. char_of (unat x)) (drop 6 b))
      else None)"

fun test_unmarshal :: "byte list \<Rightarrow> Claims \<Rightarrow> error + Claims" where
  "test_unmarshal b (RegisteredC c) =
     (case decode_iss b of
        None \<Rightarrow> Inl (External ''bytes outside the fragment'')
      | Some iss \<Rightarrow> Inr (RegisteredC (c\<lparr>Issuer := iss\<rparr>)))"
| "test_unmarshal b (ClaimsMapC m) =
     (case decode_iss b of
        None \<Rightarrow> Inl (External ''bytes outside the fragment'')
      | Some iss \<Rightarrow>
          Inr (ClaimsMapC (if iss = [] then m else m(ClaimsKeyIssuer \<mapsto> AString iss))))"
| "test_unmarshal b (ValidatingC c r) =
     (case decode_iss b of
        None \<Rightarrow> Inl (External ''bytes outside the fragment'')
      | Some iss \<Rightarrow> Inr (ValidatingC (c\<lparr>Issuer := iss\<rparr>) r))"

definition checksum :: "byte list \<Rightarrow> byte" where
  "checksum b = fold (+) b 0"

definition test_ext :: Ext where
  "test_ext =
     \<lparr>marshal = test_marshal,
      unmarshal = test_unmarshal,
      hmac_sum = (\<lambda>h key msg. replicate (Size h) (checksum (key @ msg))),
      ed25519_sign = (\<lambda>privateKey msg. replicate 64 (checksum (drop 32 privateKey @ msg))),
      ed25519_verify = (\<lambda>publicKey msg sig. sig = replicate 64 (checksum (publicKey @ msg)))\<rparr>"

definition test_body :: "byte list" where
  "test_body = [0x80]"

definition test_secret :: "byte list" where
  "test_secret = [1, 2, 3]"

definition test_private :: "byte list" where
  "test_private = replicate 32 7 @ replicate 32 9"

definition test_public :: "byte list" where
  "test_public = replicate 32 9"

text \<open>
  The error of a parse is the malformed error, as \<open>errors.Is\<close> tells it. \<open>claims_iss\<close> are
  registered claims that hold an issuer only.
\<close>

definition is_malformed :: "error option \<Rightarrow> bool" where
  "is_malformed err = (case err of None \<Rightarrow> False | Some e \<Rightarrow> errors_Is e ErrTokenMalformed)"

definition claims_iss :: "string \<Rightarrow> Claims" where
  "claims_iss iss =
     RegisteredC \<lparr>KeyID = [], ExpirationTime = 0, IssuedAt = 0, NotBefore = 0, Issuer = iss,
                  Subject = [], Audience = []\<rparr>"


section \<open>Properties\<close>

subsection \<open>Comparisons\<close>

lemma of_char_byte_inj: "(of_char a :: byte) = of_char b \<Longrightarrow> a = b"
proof -
  assume h: "(of_char a :: byte) = of_char b"
  have u: "unat (of_char c :: byte) = of_char c" for c
  proof -
    have "(of_char c :: byte) = of_nat (of_char c)" by (simp add: of_nat_of_char)
    then have "unat (of_char c :: byte) = (of_char c :: nat) mod 256" by (simp add: unat_of_nat)
    moreover have "(of_char c :: nat) < 256" by simp
    ultimately show ?thesis by simp
  qed
  from h have "unat (of_char a :: byte) = unat (of_char b :: byte)" by simp
  then have "(of_char a :: nat) = of_char b" by (simp add: u)
  then show "a = b" by simp
qed

lemma bytes_of_eq_iff: "bytes_of a = bytes_of b \<longleftrightarrow> a = b"
  unfolding bytes_of_def
  by (metis of_char_byte_inj inj_onI inj_map_eq_map)

lemma unat_ucast_byte: "unat (ucast (v :: byte) :: 32 word) = unat v"
  by (simp add: unsigned_ucast_eq take_bit_nat_eq_self_iff)
     (use unsigned_less [of v, where ?'a = nat] in simp)

lemma ucast_byte_minus_one_small:
  assumes "v \<noteq> 0"
  shows "unat ((ucast (v :: byte) :: 32 word) - 1) < 2 ^ 31"
proof -
  from assms have "(ucast v :: 32 word) \<noteq> 0"
    by (metis unat_ucast_byte unsigned_eq_0_iff)
  then have "unat ((ucast v :: 32 word) - 1) = unat v - 1"
    by (simp add: unat_minus_one unat_ucast_byte)
  moreover have "unat v < 256" using unsigned_less [of v, where ?'a = nat] by simp
  ultimately show ?thesis by simp
qed

lemma drop_bit_31_small:
  assumes "unat (w :: 32 word) < 2 ^ 31"
  shows "drop_bit 31 w = 0"
proof -
  have "unat (drop_bit 31 w) = drop_bit 31 (unat w)" by (rule unat_drop_bit_eq)
  also have "\<dots> = 0" using assms by (simp add: drop_bit_eq_div)
  finally show ?thesis by (simp add: unsigned_eq_0_iff)
qed

lemma ConstantTimeByteEq_zero: "ConstantTimeByteEq v 0 = (if v = 0 then 1 else 0)"
proof (cases "v = 0")
  case True
  then show ?thesis by (simp add: ConstantTimeByteEq_def)
next
  case False
  then have "drop_bit 31 ((ucast v :: 32 word) - 1) = 0"
    by (intro drop_bit_31_small ucast_byte_minus_one_small)
  with False show ?thesis by (simp add: ConstantTimeByteEq_def)
qed

lemma xor_byte_zero: "(a :: byte) XOR b = 0 \<longleftrightarrow> a = b"
  by (metis bit.xor_left_self xor.right_neutral)

lemma fold_or_xor_zero:
  "fold (\<lambda>(a, b) v. v OR (a XOR b)) ps (acc :: byte) = 0 \<longleftrightarrow> acc = 0 \<and> (\<forall>(a, b) \<in> set ps. a = b)"
  by (induction ps arbitrary: acc) (auto simp: or_eq_0_iff xor_byte_zero)

lemma ConstantTimeCompare_eq: "ConstantTimeCompare x y = (if x = y then 1 else 0)"
proof (cases "length x = length y")
  case False
  then show ?thesis by (auto simp: ConstantTimeCompare_def)
next
  case True
  then have "(\<forall>(a, b) \<in> set (zip x y). a = b) \<longleftrightarrow> x = y"
    by (induction x y rule: list_induct2) auto
  with True show ?thesis
    by (simp add: ConstantTimeCompare_def ConstantTimeByteEq_zero fold_or_xor_zero)
qed

lemma MapValue_absent: "m key = None \<Longrightarrow> MapValue asV z m key = Inr z"
  by (simp add: MapValue_def)

lemma as_string_mistyped: "dynamic_type v \<noteq> TString \<Longrightarrow> as_string v = None"
  by (cases v) simp_all

lemma as_time_mistyped: "dynamic_type v \<noteq> TTime \<Longrightarrow> as_time v = None"
  by (cases v) simp_all

lemma as_strings_mistyped: "dynamic_type v \<noteq> TStrings \<Longrightarrow> as_strings v = None"
  by (cases v) simp_all

lemma Str_cases:
  "absent m key \<Longrightarrow> Str m key = Inr []"
  "mistyped m key TString \<Longrightarrow> Str m key = Inl PanicInterfaceConversion"
  by (auto simp: Str_def MapValue_def absent_def mistyped_def as_string_mistyped
           split: option.splits)

lemma Time_of_cases:
  "absent m key \<Longrightarrow> Time_of m key = Inr 0"
  "mistyped m key TTime \<Longrightarrow> Time_of m key = Inl PanicInterfaceConversion"
  by (auto simp: Time_of_def MapValue_def absent_def mistyped_def as_time_mistyped
           split: option.splits)

lemma Strs_cases:
  "absent m key \<Longrightarrow> Strs m key = Inr []"
  "mistyped m key TStrings \<Longrightarrow> Strs m key = Inl PanicInterfaceConversion"
  by (auto simp: Strs_def MapValue_def absent_def mistyped_def as_strings_mistyped
           split: option.splits)

subsection \<open>C10: the accessors of \<open>ClaimsMap\<close>\<close>

text \<open>
  C10. The seven accessors of \<open>ClaimsMap\<close> are not total: on a map without the
  well-known key each returns the zero value of its type (the empty string, the zero
  Time, the nil slice), and on a map that holds the key with a value of another dynamic
  type each panics in the unchecked type assertion of \<open>MapValue\<close>.
\<close>

theorem ClaimsMap_accessors_zero_or_panic:
  "(absent m ClaimsKeyKeyID \<longrightarrow> GetKeyID (ClaimsMapC m) = Inr [])
 \<and> (absent m ClaimsKeyExpirationTime \<longrightarrow> GetExpirationTime (ClaimsMapC m) = Inr 0)
 \<and> (absent m ClaimsKeyIssuedAt \<longrightarrow> GetIssuedAt (ClaimsMapC m) = Inr 0)
 \<and> (absent m ClaimsKeyNotBefore \<longrightarrow> GetNotBefore (ClaimsMapC m) = Inr 0)
 \<and> (absent m ClaimsKeyIssuer \<longrightarrow> GetIssuer (ClaimsMapC m) = Inr [])
 \<and> (absent m ClaimsKeySubject \<longrightarrow> GetSubject (ClaimsMapC m) = Inr [])
 \<and> (absent m ClaimsKeyAudience \<longrightarrow> GetAudience (ClaimsMapC m) = Inr [])
 \<and> (mistyped m ClaimsKeyKeyID TString \<longrightarrow>
      GetKeyID (ClaimsMapC m) = Inl PanicInterfaceConversion)
 \<and> (mistyped m ClaimsKeyExpirationTime TTime \<longrightarrow>
      GetExpirationTime (ClaimsMapC m) = Inl PanicInterfaceConversion)
 \<and> (mistyped m ClaimsKeyIssuedAt TTime \<longrightarrow>
      GetIssuedAt (ClaimsMapC m) = Inl PanicInterfaceConversion)
 \<and> (mistyped m ClaimsKeyNotBefore TTime \<longrightarrow>
      GetNotBefore (ClaimsMapC m) = Inl PanicInterfaceConversion)
 \<and> (mistyped m ClaimsKeyIssuer TString \<longrightarrow>
      GetIssuer (ClaimsMapC m) = Inl PanicInterfaceConversion)
 \<and> (mistyped m ClaimsKeySubject TString \<longrightarrow>
      GetSubject (ClaimsMapC m) = Inl PanicInterfaceConversion)
 \<and> (mistyped m ClaimsKeyAudience TStrings \<longrightarrow>
      GetAudience (ClaimsMapC m) = Inl PanicInterfaceConversion)"
  by (simp add: Str_cases Time_of_cases Strs_cases)

theorem ClaimsMap_accessors_zero_or_panic_witness:
  "absent Map.empty ClaimsKeyKeyID \<and> GetKeyID (ClaimsMapC Map.empty) = Inr []
 \<and> absent Map.empty ClaimsKeyExpirationTime \<and> GetExpirationTime (ClaimsMapC Map.empty) = Inr 0
 \<and> absent Map.empty ClaimsKeyIssuedAt \<and> GetIssuedAt (ClaimsMapC Map.empty) = Inr 0
 \<and> absent Map.empty ClaimsKeyNotBefore \<and> GetNotBefore (ClaimsMapC Map.empty) = Inr 0
 \<and> absent Map.empty ClaimsKeyIssuer \<and> GetIssuer (ClaimsMapC Map.empty) = Inr []
 \<and> absent Map.empty ClaimsKeySubject \<and> GetSubject (ClaimsMapC Map.empty) = Inr []
 \<and> absent Map.empty ClaimsKeyAudience \<and> GetAudience (ClaimsMapC Map.empty) = Inr []
 \<and> mistyped mistyped_claims ClaimsKeyKeyID TString
 \<and> GetKeyID (ClaimsMapC mistyped_claims) = Inl PanicInterfaceConversion
 \<and> mistyped mistyped_claims ClaimsKeyExpirationTime TTime
 \<and> GetExpirationTime (ClaimsMapC mistyped_claims) = Inl PanicInterfaceConversion
 \<and> mistyped mistyped_claims ClaimsKeyIssuedAt TTime
 \<and> GetIssuedAt (ClaimsMapC mistyped_claims) = Inl PanicInterfaceConversion
 \<and> mistyped mistyped_claims ClaimsKeyNotBefore TTime
 \<and> GetNotBefore (ClaimsMapC mistyped_claims) = Inl PanicInterfaceConversion
 \<and> mistyped mistyped_claims ClaimsKeyIssuer TString
 \<and> GetIssuer (ClaimsMapC mistyped_claims) = Inl PanicInterfaceConversion
 \<and> mistyped mistyped_claims ClaimsKeySubject TString
 \<and> GetSubject (ClaimsMapC mistyped_claims) = Inl PanicInterfaceConversion
 \<and> mistyped mistyped_claims ClaimsKeyAudience TStrings
 \<and> GetAudience (ClaimsMapC mistyped_claims) = Inl PanicInterfaceConversion"
proof -
  have a: "absent Map.empty k" for k by (simp add: absent_def)
  have m: "mistyped mistyped_claims ClaimsKeyKeyID TString"
    "mistyped mistyped_claims ClaimsKeyExpirationTime TTime"
    "mistyped mistyped_claims ClaimsKeyIssuedAt TTime"
    "mistyped mistyped_claims ClaimsKeyNotBefore TTime"
    "mistyped mistyped_claims ClaimsKeyIssuer TString"
    "mistyped mistyped_claims ClaimsKeySubject TString"
    "mistyped mistyped_claims ClaimsKeyAudience TStrings"
    by (simp_all add: mistyped_def mistyped_claims_def ClaimsKeyKeyID_def
        ClaimsKeyExpirationTime_def ClaimsKeyIssuedAt_def ClaimsKeyNotBefore_def
        ClaimsKeyIssuer_def ClaimsKeySubject_def ClaimsKeyAudience_def)
  show ?thesis
    using ClaimsMap_accessors_zero_or_panic [of Map.empty]
      ClaimsMap_accessors_zero_or_panic [of mistyped_claims]
    by (simp add: a m)
qed

lemma errorIfRequired_eq:
  "errorIfRequired required claim =
     (if required then Some (Joined [ErrorsNew (claim @ '' claim is required''),
                                      ErrTokenRequiredClaimMissing])
      else None)"
  by (simp add: errorIfRequired_def errors_Join_def)

lemma audience_loop_eq:
  "audience_loop aud audience result nonEmpty =
     (result \<or> audience \<in> set aud, nonEmpty \<or> (\<exists>a \<in> set aud. a \<noteq> []))"
  by (induction aud arbitrary: result nonEmpty)
     (auto simp: ConstantTimeCompare_eq bytes_of_eq_iff)

subsection \<open>C8: the audience rule\<close>

text \<open>
  C8. The audience rule treats an absent or empty audience list, and a list whose every
  entry is the empty string, as absent: an error (the required-claim error) only when the
  required flag is set. Otherwise it succeeds exactly when some entry of the list equals
  the expected audience, and fails with the invalid-audience error when none does. The
  entries are compared with \<open>ConstantTimeCompare\<close>, which is 1 exactly on equal byte
  strings (\<open>ConstantTimeCompare_eq\<close>); the rule leaves the validator as it was.
\<close>

theorem RequireAudience_result:
  assumes "GetAudience claims = Inr aud"
  shows "RequireAudience required audience v claims =
           Inr (if aud = [] \<or> (\<forall>a \<in> set aud. a = [])
                then (if required
                      then Some (Joined [ErrorsNew ''aud claim is required'',
                                         ErrTokenRequiredClaimMissing])
                      else None)
                else if audience \<in> set aud then None
                else Some ErrTokenInvalidAudience, v)"
  using assms
  by (auto simp: RequireAudience_def audience_loop_eq errorIfRequired_eq errorIfFalse_def
                 ClaimsKeyAudience_def)

theorem RequireAudience_result_witness:
  "GetAudience claims_ab = Inr [''a'', ''b'']
 \<and> RequireAudience True ''b'' (clock_at 5 0) claims_ab = Inr (None, clock_at 5 0)
 \<and> RequireAudience True ''c'' (clock_at 5 0) claims_ab
     = Inr (Some ErrTokenInvalidAudience, clock_at 5 0)"
proof -
  have g: "GetAudience claims_ab = Inr [''a'', ''b'']" by (simp add: claims_ab_def)
  show ?thesis
    using RequireAudience_result [OF g, of True "''b''" "clock_at 5 0"]
          RequireAudience_result [OF g, of True "''c''" "clock_at 5 0"] g
    by simp
qed

subsection \<open>C7: the expiration rule\<close>



lemma failures_simps [simp]:
  "failures [] = []"
  "failures (None # es) = failures es"
  "failures (Some e # es) = e # failures es"
  by (simp_all add: failures_def)

lemma failures_append [simp]: "failures (xs @ ys) = failures xs @ failures ys"
  by (induction xs) (auto simp: failures_def split: option.splits)

lemma failures_map_Some [simp]: "failures (map Some es) = es"
  by (induction es) simp_all

lemma set_failures: "e \<in> set (failures es) \<longleftrightarrow> Some e \<in> set es"
proof (induction es)
  case Nil
  show ?case by simp
next
  case (Cons a es)
  then show ?case by (cases a) auto
qed

lemma failures_Nil_iff: "failures es = [] \<longleftrightarrow> (\<forall>e \<in> set es. e = None)"
proof (induction es)
  case Nil
  show ?case by simp
next
  case (Cons a es)
  then show ?case by (cases a) auto
qed

lemma errors_Join_failures:
  "errors_Join es = (if failures es = [] then None else Some (Joined (failures es)))"
  by (simp add: errors_Join_def failures_def)

lemma run_validators_outcomes:
  "run_validators rules v claims errs =
     (case all_rule_outcomes rules v claims of
        Inl p \<Rightarrow> Inl p
      | Inr (outcomes, v') \<Rightarrow> Inr (errs @ failures outcomes, v'))"
proof (induction rules arbitrary: v errs)
  case Nil
  show ?case by simp
next
  case (Cons rule rules)
  show ?case
  proof (cases "rule v claims")
    case (Inl p)
    then show ?thesis by simp
  next
    case (Inr r)
    obtain outcome v' where r: "r = (outcome, v')" by (cases r)
    show ?thesis
    proof (cases outcome)
      case None
      with Inr r Cons.IH [of v' errs] show ?thesis
        by (simp split: sum.splits prod.splits)
    next
      case (Some e)
      with Inr r Cons.IH [of v' "errs @ [e]"] show ?thesis
        by (simp split: sum.splits prod.splits)
    qed
  qed
qed

lemma all_rule_outcomes_length:
  "all_rule_outcomes rules v claims = Inr (outcomes, v') \<Longrightarrow> length outcomes = length rules"
  by (induction rules arbitrary: v outcomes)
     (auto split: sum.splits prod.splits)

lemma Validate_outcomes:
  "Validate v claims =
     (case all_rule_outcomes (validators v) (clock v) claims of
        Inl p \<Rightarrow> Inl p
      | Inr (outcomes, c') \<Rightarrow>
          Inr (errors_Join (outcomes @ [self_check claims]), v\<lparr>clock := c'\<rparr>))"
  by (auto simp: Validate_def run_validators_outcomes errors_Join_failures self_check_def
           split: sum.splits prod.splits option.splits)

subsection \<open>C6: \<open>Validate\<close> runs every rule\<close>

text \<open>
  C6. A call of \<open>Validate\<close> runs every registered rule, whatever the rules before it
  returned, and then the self-validation of the claims when they have one: its result is
  the join of the outcomes of all the rules and of the self-check, and it panics only when
  a rule does. There is one outcome per rule; the result is nil exactly when every rule and
  the self-check returned nil; otherwise it is the join of every error returned, in order,
  so each failure of a rule or of the self-check is a member of the aggregate.
\<close>

theorem Validate_runs_every_rule:
  "Validate v claims =
     (case all_rule_outcomes (validators v) (clock v) claims of
        Inl p \<Rightarrow> Inl p
      | Inr (outcomes, c') \<Rightarrow>
          Inr (errors_Join (outcomes @ [self_check claims]), v\<lparr>clock := c'\<rparr>))
 \<and> (all_rule_outcomes (validators v) (clock v) claims = Inr (outcomes, c') \<longrightarrow>
      length outcomes = length (validators v)
    \<and> (errors_Join (outcomes @ [self_check claims]) = None
         \<longleftrightarrow> (\<forall>outcome \<in> set outcomes. outcome = None) \<and> self_check claims = None)
    \<and> (errors_Join (outcomes @ [self_check claims]) \<noteq> None \<longrightarrow>
         errors_Join (outcomes @ [self_check claims])
           = Some (Joined (failures outcomes @ failures [self_check claims])))
    \<and> (\<forall>e. e \<in> set (failures outcomes @ failures [self_check claims])
             \<longleftrightarrow> Some e \<in> set outcomes \<or> self_check claims = Some e))"
proof (intro conjI impI)
  show "Validate v claims =
     (case all_rule_outcomes (validators v) (clock v) claims of
        Inl p \<Rightarrow> Inl p
      | Inr (outcomes, c') \<Rightarrow>
          Inr (errors_Join (outcomes @ [self_check claims]), v\<lparr>clock := c'\<rparr>))"
    by (rule Validate_outcomes)
next
  assume "all_rule_outcomes (validators v) (clock v) claims = Inr (outcomes, c')"
  then show "length outcomes = length (validators v)"
    by (rule all_rule_outcomes_length)
next
  show "(errors_Join (outcomes @ [self_check claims]) = None)
          = ((\<forall>outcome \<in> set outcomes. outcome = None) \<and> self_check claims = None)"
    by (auto simp: errors_Join_failures failures_Nil_iff)
next
  assume "errors_Join (outcomes @ [self_check claims]) \<noteq> None"
  then show "errors_Join (outcomes @ [self_check claims])
           = Some (Joined (failures outcomes @ failures [self_check claims]))"
    by (simp add: errors_Join_failures split: if_splits)
next
  show "\<forall>e. e \<in> set (failures outcomes @ failures [self_check claims])
             \<longleftrightarrow> Some e \<in> set outcomes \<or> self_check claims = Some e"
    by (auto simp: set_failures)
qed

theorem Validate_runs_every_rule_witness:
  "all_rule_outcomes (validators two_rules) (clock two_rules) failing_claims
     = Inr ([Some ErrTokenExpired, Some ErrTokenInvalidIssuer], snd (Now (clock_at 100 0)))
 \<and> self_check failing_claims = Some (External ''custom check failed'')
 \<and> Validate two_rules failing_claims
     = Inr (Some (Joined [ErrTokenExpired, ErrTokenInvalidIssuer,
                          External ''custom check failed'']),
            two_rules\<lparr>clock := snd (Now (clock_at 100 0))\<rparr>)"
proof -
  have n: "Now (clock_at 100 0) = (100, snd (Now (clock_at 100 0)))"
    by (simp add: Now_def clock_at_def IsZero_def Let_def)
  have o: "all_rule_outcomes (validators two_rules) (clock two_rules) failing_claims
     = Inr ([Some ErrTokenExpired, Some ErrTokenInvalidIssuer], snd (Now (clock_at 100 0)))"
    by (simp add: two_rules_def failing_claims_def VerifyExpiration_def VerifyIssuer_def
          PTime_def IsZero_def Before_def Add_def errorIfFalse_def Now_def clock_at_def Let_def)
  have s: "self_check failing_claims = Some (External ''custom check failed'')"
    by (simp add: self_check_def failing_claims_def)
  show ?thesis
    using Validate_runs_every_rule [of two_rules failing_claims
            "[Some ErrTokenExpired, Some ErrTokenInvalidIssuer]" "snd (Now (clock_at 100 0))"]
    by (simp add: o s errors_Join_failures)
qed






subsection \<open>C9: the cached timestamp\<close>




lemma hmac_Equal_eq: "hmac_Equal a b \<longleftrightarrow> a = b"
  by (simp add: hmac_Equal_def ConstantTimeCompare_eq)

subsection \<open>C4: the error conditions of \<open>Verify\<close>\<close>

text \<open>
  C4. \<open>Verify\<close> of both built-in families returns and never panics, and its error tells the
  cause. For the keyed-hash family (on a hash that is linked in, as the three SHA-3 hashes
  of the built-in algorithms are): a key whose dynamic type is not \<open>[]byte\<close> gives the
  invalid-key-type error, then a tag whose length is not the output size of the hash gives
  the tag-invalid error, and only a tag of that length that differs from the MAC gives the
  wrong-tag error. For EdDSA: a key whose dynamic type is not \<open>ed25519.PublicKey\<close> gives
  the invalid-key-type error, then a key of the wrong length gives the invalid-key error,
  then a tag whose length is not the signature size gives the tag-invalid error, and only a
  tag of that length that the scheme rejects gives the wrong-tag error.
\<close>

theorem Verify_distinguishes_errors:
  "(Available h \<longrightarrow>
      Verify ext (hmacAlgo alg h) prefix body key tag =
        Inr (case key of
               KeyBytes keyBytes \<Rightarrow>
                 if length tag \<noteq> Size h then Some ErrTagInvalid
                 else if tag \<noteq> hmac_sum ext h keyBytes (bytes_of prefix @ body)
                 then Some ErrWrongTag
                 else None
             | _ \<Rightarrow> Some ErrInvalidKeyType))
 \<and> Verify ext algoEd25519 prefix body key tag =
        Inr (case key of
               KeyEd25519Public publicKey \<Rightarrow>
                 if length publicKey \<noteq> 32 then Some ErrInvalidKey
                 else if length tag \<noteq> 64 then Some ErrTagInvalid
                 else if \<not> ed25519_verify ext publicKey (bytes_of prefix @ body) tag
                 then Some ErrWrongTag
                 else None
             | _ \<Rightarrow> Some ErrInvalidKeyType)
 \<and> Available SHA3_256 \<and> Available SHA3_384 \<and> Available SHA3_512"
  by (cases key)
     (auto simp: KeyAs_def hmac_Sum_def hmac_Equal_eq ed25519_Verify_def
                 PublicKeySize_def SignatureSize_def)

lemma test_mac: "hmac_sum test_ext SHA3_256 test_secret (bytes_of ''BWT_HS256'' @ test_body) = replicate 32 10"
  by code_simp

lemma test_signature:
  "ed25519_sign test_ext test_private (bytes_of ''BWT_EDDSA'' @ test_body) = replicate 64 77"
  by code_simp

lemma test_verify:
  "ed25519_verify test_ext test_public (bytes_of ''BWT_EDDSA'' @ test_body) sig
     \<longleftrightarrow> sig = replicate 64 77"
proof -
  have "checksum (test_public @ bytes_of ''BWT_EDDSA'' @ test_body) = 77" by code_simp
  thus ?thesis by (simp add: test_ext_def)
qed

theorem Verify_distinguishes_errors_witness:
  "Available SHA3_256
 \<and> Verify test_ext HS256 ''BWT_HS256'' test_body (KeyEd25519Public test_public) (replicate 32 10)
     = Inr (Some ErrInvalidKeyType)
 \<and> Verify test_ext HS256 ''BWT_HS256'' test_body (KeyBytes test_secret) (replicate 31 10)
     = Inr (Some ErrTagInvalid)
 \<and> Verify test_ext HS256 ''BWT_HS256'' test_body (KeyBytes test_secret) (replicate 32 11)
     = Inr (Some ErrWrongTag)
 \<and> Verify test_ext HS256 ''BWT_HS256'' test_body (KeyBytes test_secret) (replicate 32 10)
     = Inr None
 \<and> Verify test_ext EdDSA ''BWT_EDDSA'' test_body (KeyBytes test_public) (replicate 64 77)
     = Inr (Some ErrInvalidKeyType)
 \<and> Verify test_ext EdDSA ''BWT_EDDSA'' test_body (KeyEd25519Public (replicate 31 9))
       (replicate 64 77)
     = Inr (Some ErrInvalidKey)
 \<and> Verify test_ext EdDSA ''BWT_EDDSA'' test_body (KeyEd25519Public test_public)
       (replicate 63 77)
     = Inr (Some ErrTagInvalid)
 \<and> Verify test_ext EdDSA ''BWT_EDDSA'' test_body (KeyEd25519Public test_public)
       (replicate 64 78)
     = Inr (Some ErrWrongTag)
 \<and> Verify test_ext EdDSA ''BWT_EDDSA'' test_body (KeyEd25519Public test_public)
       (replicate 64 77)
     = Inr None"
proof -
  have a: "Available SHA3_256" by simp
  have l: "length test_public = 32" by (simp add: test_public_def)
  have r: "replicate 32 (11 :: byte) \<noteq> replicate 32 10" "replicate 64 (78 :: byte) \<noteq> replicate 64 77"
    by simp_all
  show ?thesis
    using
      Verify_distinguishes_errors [of SHA3_256 test_ext "''HS256''" "''BWT_HS256''" test_body
        "KeyEd25519Public test_public" "replicate 32 10"]
      Verify_distinguishes_errors [of SHA3_256 test_ext "''HS256''" "''BWT_HS256''" test_body
        "KeyBytes test_secret" "replicate 31 10"]
      Verify_distinguishes_errors [of SHA3_256 test_ext "''HS256''" "''BWT_HS256''" test_body
        "KeyBytes test_secret" "replicate 32 11"]
      Verify_distinguishes_errors [of SHA3_256 test_ext "''HS256''" "''BWT_HS256''" test_body
        "KeyBytes test_secret" "replicate 32 10"]
      Verify_distinguishes_errors [of SHA3_256 test_ext "''HS256''" "''BWT_EDDSA''" test_body
        "KeyBytes test_public" "replicate 64 77"]
      Verify_distinguishes_errors [of SHA3_256 test_ext "''HS256''" "''BWT_EDDSA''" test_body
        "KeyEd25519Public (replicate 31 9)" "replicate 64 77"]
      Verify_distinguishes_errors [of SHA3_256 test_ext "''HS256''" "''BWT_EDDSA''" test_body
        "KeyEd25519Public test_public" "replicate 63 77"]
      Verify_distinguishes_errors [of SHA3_256 test_ext "''HS256''" "''BWT_EDDSA''" test_body
        "KeyEd25519Public test_public" "replicate 64 78"]
      Verify_distinguishes_errors [of SHA3_256 test_ext "''HS256''" "''BWT_EDDSA''" test_body
        "KeyEd25519Public test_public" "replicate 64 77"]
    by (simp add: HS256_def EdDSA_def test_mac test_verify l r)
qed

lemma errors_Join_two: "errors_Join [Some a, Some b] = Some (Joined [a, b])"
  by (simp add: errors_Join_def List.map_filter_def)

subsection \<open>C5: when the unverified parse reports a malformed token\<close>

text \<open>
  C5, as stated, fails: the algorithm is looked up before the claims segment is decoded,
  so a string of three parts with the prefix \<open>BWT_X\<close>, whose algorithm is not registered,
  and a claims segment that is not base64url gives the unverifiable error, which is not
  the malformed error.
\<close>

theorem ParseUnverified_unregistered_bad_claims_segment:
  "ParseUnverified test_ext init_registry ''BWT_X.!.a'' (ClaimsMapC Map.empty) =
     (Some \<lparr>Algorithm = None, Claims = None, Tag = []\<rparr>,
      \<lparr>Parts = [''BWT_X'', ''!'', ''a''], RawClaims = []\<rparr>,
      Some ErrTokenUnverifiable)
 \<and> Split ''BWT_X.!.a'' CHR ''.'' = [''BWT_X'', ''!'', ''a'']
 \<and> Decode ''!'' = ([], Some CorruptInputError)
 \<and> \<not> errors_Is ErrTokenUnverifiable ErrTokenMalformed"
  by (simp add: ParseUnverified_def Let_def Cut_def Type_def GetAlgorithm_def init_registry_def
      RegisterAlgorithm_def ToUpper_def upper_byte_def HS256_def HS384_def HS512_def EdDSA_def
      Decode_def DecodeString_def decodeMap_def encodeURL_def)

text \<open>
  C5, amended. \<open>ParseUnverified\<close> returns the malformed error exactly when the string does
  not split on \<open>.\<close> into exactly 3 parts, or the first part cut at the first \<open>_\<close> does not
  have the left side \<open>BWT\<close>, or the algorithm name on the right side is empty, or the
  algorithm is registered and the claims segment fails base64url decoding or claims
  deserialization.
\<close>

theorem ParseUnverified_malformed_iff:
  "is_malformed (snd (snd (ParseUnverified ext registeredAlgs tokenString claims))) \<longleftrightarrow>
     length (Split tokenString CHR ''.'') \<noteq> 3
   \<or> fst (Cut (Split tokenString CHR ''.'' ! 0) CHR ''_'') \<noteq> ''BWT''
   \<or> fst (snd (Cut (Split tokenString CHR ''.'' ! 0) CHR ''_'')) = []
   \<or> GetAlgorithm registeredAlgs (fst (snd (Cut (Split tokenString CHR ''.'' ! 0) CHR ''_'')))
        \<noteq> None
      \<and> (snd (Decode (Split tokenString CHR ''.'' ! 1)) \<noteq> None
         \<or> isl (unmarshal ext (fst (Decode (Split tokenString CHR ''.'' ! 1))) claims))"
proof -
  obtain ty name found
    where c: "Cut (Split tokenString CHR ''.'' ! 0) CHR ''_'' = (ty, name, found)"
    by (cases "Cut (Split tokenString CHR ''.'' ! 0) CHR ''_''")
  have ok: "\<not> found \<Longrightarrow> name = []"
    using c by (auto simp: Cut_def split: if_splits)
  show ?thesis
    using ok
    by (cases "Decode (Split tokenString CHR ''.'' ! 1)")
       (auto simp: ParseUnverified_def Let_def c is_malformed_def Type_def errors_Join_two
             simp del: Split.simps split: option.splits sum.splits)
qed

lemma registered_HS256: "GetAlgorithm init_registry ''HS256'' = Some HS256"
  by (simp add: GetAlgorithm_def init_registry_def RegisterAlgorithm_def ToUpper_def
      upper_byte_def HS256_def HS384_def HS512_def EdDSA_def)

lemma Decode_examples:
  "Decode ''gA'' = ([0x80], None)" "Decode ''!'' = ([], Some CorruptInputError)"
  "Decode ''AA'' = ([0], None)"
  by (simp_all add: Decode_def DecodeString_def decodeMap_def encodeURL_def)

theorem ParseUnverified_malformed_iff_witness:
  "\<not> is_malformed (snd (snd (ParseUnverified test_ext init_registry ''BWT_HS256.gA.AAAA''
        (claims_iss []))))
 \<and> is_malformed (snd (snd (ParseUnverified test_ext init_registry ''BWT_HS256.gA''
        (claims_iss []))))
 \<and> is_malformed (snd (snd (ParseUnverified test_ext init_registry ''JWT_HS256.gA.AAAA''
        (claims_iss []))))
 \<and> is_malformed (snd (snd (ParseUnverified test_ext init_registry ''BWT_.gA.AAAA''
        (claims_iss []))))
 \<and> is_malformed (snd (snd (ParseUnverified test_ext init_registry ''BWT_HS256.!.AAAA''
        (claims_iss []))))
 \<and> is_malformed (snd (snd (ParseUnverified test_ext init_registry ''BWT_HS256.AA.AAAA''
        (claims_iss []))))
 \<and> \<not> is_malformed (snd (snd (ParseUnverified test_ext init_registry ''BWT_X.!.AAAA''
        (claims_iss []))))"
  using
    ParseUnverified_malformed_iff [of test_ext init_registry "''BWT_HS256.gA.AAAA''" "claims_iss []"]
    ParseUnverified_malformed_iff [of test_ext init_registry "''BWT_HS256.gA''" "claims_iss []"]
    ParseUnverified_malformed_iff [of test_ext init_registry "''JWT_HS256.gA.AAAA''" "claims_iss []"]
    ParseUnverified_malformed_iff [of test_ext init_registry "''BWT_.gA.AAAA''" "claims_iss []"]
    ParseUnverified_malformed_iff [of test_ext init_registry "''BWT_HS256.!.AAAA''" "claims_iss []"]
    ParseUnverified_malformed_iff [of test_ext init_registry "''BWT_HS256.AA.AAAA''" "claims_iss []"]
    ParseUnverified_malformed_iff [of test_ext init_registry "''BWT_X.!.AAAA''" "claims_iss []"]
  by (simp add: Cut_def registered_HS256 Decode_examples test_ext_def claims_iss_def
      decode_iss_def bytes_of_def GetAlgorithm_def init_registry_def RegisterAlgorithm_def
      ToUpper_def upper_byte_def HS256_def HS384_def HS512_def EdDSA_def)

lemma Split_3_examples:
  "Split ''BWT_X.gaNpc3OhYQ.AAAA'' CHR ''.'' = [''BWT_X'', ''gaNpc3OhYQ'', ''AAAA'']"
  "Split ''BWT_HS256.gA.AAAA'' CHR ''.'' = [''BWT_HS256'', ''gA'', ''AAAA'']"
  by simp_all

lemma Decode_more_examples:
  "Decode ''gaNpc3OhYQ'' = ([0x81, 0xA3, 0x69, 0x73, 0x73, 0xA1, 0x61], None)"
  "Decode ''AAAA'' = ([0, 0, 0], None)"
  by (simp_all add: Decode_def DecodeString_def decodeMap_def encodeURL_def)

lemma unregistered_X: "GetAlgorithm init_registry ''X'' = None"
  by (simp add: GetAlgorithm_def init_registry_def RegisterAlgorithm_def ToUpper_def
      upper_byte_def HS256_def HS384_def HS512_def EdDSA_def)

lemma char_of_97: "char_of (97 :: nat) = CHR ''a''"
  by code_simp

subsection \<open>C2: an algorithm that is not registered\<close>

text \<open>
  C2, as stated, fails in its second half: \<open>ParseUnverified\<close> returns as soon as the
  algorithm is not found, before the claims segment is decoded. Here the claims segment
  is the encoding of claims with the issuer \<open>a\<close>, which the codec deserializes into the
  container, and yet the token returned has no claims and the raw claims are empty.
\<close>

theorem ParseUnverified_unregistered_claims_not_decoded:
  "ParseUnverified test_ext init_registry ''BWT_X.gaNpc3OhYQ.AAAA'' (claims_iss []) =
     (Some \<lparr>Algorithm = None, Claims = None, Tag = []\<rparr>,
      \<lparr>Parts = [''BWT_X'', ''gaNpc3OhYQ'', ''AAAA''], RawClaims = []\<rparr>,
      Some ErrTokenUnverifiable)
 \<and> Decode ''gaNpc3OhYQ'' = (encode_iss ''a'', None)
 \<and> unmarshal test_ext (encode_iss ''a'') (claims_iss []) = Inr (claims_iss ''a'')"
  by (simp add: ParseUnverified_def Let_def Cut_def Type_def unregistered_X Decode_more_examples
      encode_iss_def bytes_of_def test_ext_def claims_iss_def decode_iss_def char_of_97)

text \<open>
  C2, amended. For every wire string of three parts whose first part is \<open>BWT_\<close> and a
  non-empty algorithm name that is not registered, \<open>ParseUnverified\<close> and
  \<open>ParseWithClaims\<close> return the unverifiable error, which is not the malformed error, and
  a token without algorithm, claims and tag; the claims segment is not decoded, and is
  returned as it is among the parts.
\<close>

theorem ParseUnverified_unregistered:
  assumes "Split tokenString CHR ''.'' = [prefix, body, tag]"
    and "Cut prefix CHR ''_'' = (''BWT'', alg, True)"
    and "alg \<noteq> []"
    and "GetAlgorithm registeredAlgs alg = None"
  shows "ParseUnverified ext registeredAlgs tokenString claims =
           (Some \<lparr>Algorithm = None, Claims = None, Tag = []\<rparr>,
            \<lparr>Parts = [prefix, body, tag], RawClaims = []\<rparr>,
            Some ErrTokenUnverifiable)
       \<and> ParseWithClaims ext registeredAlgs p tokenString claims keyFunc =
           Inr (Some \<lparr>Algorithm = None, Claims = None, Tag = []\<rparr>, Some ErrTokenUnverifiable, p)
       \<and> \<not> errors_Is ErrTokenUnverifiable ErrTokenMalformed"
  using assms
  by (simp add: ParseWithClaims_def ParseUnverified_def Let_def Type_def del: Split.simps)

theorem ParseUnverified_unregistered_witness:
  "Split ''BWT_X.gaNpc3OhYQ.AAAA'' CHR ''.'' = [''BWT_X'', ''gaNpc3OhYQ'', ''AAAA'']
 \<and> Cut ''BWT_X'' CHR ''_'' = (''BWT'', ''X'', True)
 \<and> ''X'' \<noteq> []
 \<and> GetAlgorithm init_registry ''X'' = None
 \<and> ParseUnverified test_ext init_registry ''BWT_X.gaNpc3OhYQ.AAAA'' (claims_iss []) =
      (Some \<lparr>Algorithm = None, Claims = None, Tag = []\<rparr>,
       \<lparr>Parts = [''BWT_X'', ''gaNpc3OhYQ'', ''AAAA''], RawClaims = []\<rparr>,
       Some ErrTokenUnverifiable)
 \<and> ParseWithClaims test_ext init_registry \<lparr>validator = None\<rparr> ''BWT_X.gaNpc3OhYQ.AAAA''
      (claims_iss []) None =
      Inr (Some \<lparr>Algorithm = None, Claims = None, Tag = []\<rparr>, Some ErrTokenUnverifiable,
           \<lparr>validator = None\<rparr>)"
proof -
  have s: "Split ''BWT_X.gaNpc3OhYQ.AAAA'' CHR ''.'' = [''BWT_X'', ''gaNpc3OhYQ'', ''AAAA'']"
    by (rule Split_3_examples)
  have c: "Cut ''BWT_X'' CHR ''_'' = (''BWT'', ''X'', True)"
    by (simp add: Cut_def)
  have n: "''X'' \<noteq> []" by simp
  show ?thesis
    using ParseUnverified_unregistered [OF s c n unregistered_X, of test_ext "claims_iss []"
        "\<lparr>validator = None\<rparr>" None] s c unregistered_X
    by simp
qed

subsection \<open>C3: the tag of a token after an error\<close>




end
